theory Spec2Isabelle
  imports Main "HOL-Library.Sublist" "HOL-Library.Multiset"
begin

section \<open>JavaScript values, strings and errors\<close>

text \<open>
  A JavaScript string is modelled as the list of its code units, restricted to code units
  below 256 (\<open>char\<close>). A JavaScript value as it arrives in a parsed JSON body is a
  \<open>jsval\<close>; \<open>Undefined\<close> is what reading a field that is not there gives. Numbers are
  only ever tested for truthiness here, so an \<open>int\<close> stands for them.
\<close>

datatype jsval =
    Undefined
  | Null
  | Bool bool
  | Num int
  | Str string
  | Arr "jsval list"
  | Obj "(string \<times> jsval) list"

text \<open>\<open>!v\<close> is true exactly for the falsy values.\<close>

fun falsy :: "jsval \<Rightarrow> bool" where
  "falsy Undefined = True"
| "falsy Null = True"
| "falsy (Bool b) = (\<not> b)"
| "falsy (Num n) = (n = 0)"
| "falsy (Str s) = (s = [])"
| "falsy (Arr _) = False"
| "falsy (Obj _) = False"

text \<open>The \<open>typeof\<close> operator.\<close>

fun typeof :: "jsval \<Rightarrow> string" where
  "typeof Undefined = ''undefined''"
| "typeof Null = ''object''"
| "typeof (Bool _) = ''boolean''"
| "typeof (Num _) = ''number''"
| "typeof (Str _) = ''string''"
| "typeof (Arr _) = ''object''"
| "typeof (Obj _) = ''object''"

text \<open>\<open>obj.field\<close> on a parsed body: \<open>Undefined\<close> when the field is absent.\<close>

definition getField :: "(string \<times> jsval) list \<Rightarrow> string \<Rightarrow> jsval" where
  "getField body k = (case map_of body k of None \<Rightarrow> Undefined | Some v \<Rightarrow> v)"

text \<open>An \<open>Error\<close> object, identified with its message.\<close>

datatype error = Error (message: string)

text \<open>\<open>String.prototype.includes\<close>: the argument occurs somewhere in the string.\<close>

fun str_includes :: "string \<Rightarrow> string \<Rightarrow> bool" where
  "str_includes [] sub = (sub = [])"
| "str_includes (c # cs) sub = (prefix sub (c # cs) \<or> str_includes cs sub)"

text \<open>
  \<open>String.prototype.toLowerCase\<close> on code units below 256: the ASCII capitals and the
  Latin-1 capitals (all of 192..222 but the multiplication sign 215) move up by 32.
\<close>

definition lowerChar :: "char \<Rightarrow> char" where
  "lowerChar c =
     (let n = (of_char c :: nat)
      in if (65 \<le> n \<and> n \<le> 90) \<or> (192 \<le> n \<and> n \<le> 222 \<and> n \<noteq> 215)
         then char_of (n + 32) else c)"

definition toLowerCase :: "string \<Rightarrow> string" where
  "toLowerCase s = map lowerChar s"

text \<open>
  \<open>String.prototype.trim\<close>: white space and line terminators are removed from both ends.
  Below 256 these are TAB, LF, VT, FF, CR, SPACE and the no-break space 160.
\<close>

definition isWhiteSpace :: "char \<Rightarrow> bool" where
  "isWhiteSpace c = ((of_char c :: nat) \<in> {9, 10, 11, 12, 13, 32, 160})"

definition trim :: "string \<Rightarrow> string" where
  "trim s = rev (dropWhile isWhiteSpace (rev (dropWhile isWhiteSpace s)))"

section \<open>Providers (interfaces/AIProvider.ts)\<close>

text \<open>
  A promise is awaited at once wherever the code makes one, so an asynchronous call is a
  function of the outside world \<open>'w\<close> (the remote services, the clock) that either rejects
  with an error or resolves with a value, and leaves a new world. Every awaited promise is
  taken to settle. Every adapter method of the repository rejects with an \<open>Error\<close> object
  only (each \<open>catch\<close> block rethrows \<open>new Error(...)\<close>), so a rejection carries an
  \<open>error\<close>. The \<open>console\<close> calls do not alter control flow and are left out.
\<close>

type_synonym ('w, 'a) promise = "'w \<Rightarrow> (error + 'a) \<times> 'w"

record 'w AIProvider =
  isAvailable :: "unit \<Rightarrow> bool"
  analyzeCode :: "string \<Rightarrow> string \<Rightarrow> string \<Rightarrow> ('w, string) promise"
  explainCode :: "string \<Rightarrow> string \<Rightarrow> ('w, string) promise"
  suggestImprovements :: "string \<Rightarrow> string \<Rightarrow> jsval \<Rightarrow> ('w, string) promise"
  generateReport :: "(jsval list \<Rightarrow> jsval \<Rightarrow> ('w, string) promise) option"

record 'w ProviderConfiguration =
  name :: string
  service :: "'w AIProvider"
  priority :: int
  checkAvailable :: "(unit \<Rightarrow> bool) option"

section \<open>The fallback orchestrator (services/aiService.ts)\<close>

text \<open>
  The registry \<open>this.providers\<close> is a parameter \<open>reg\<close> of every function below.
  \<open>Array.prototype.sort\<close> is stable, as \<open>sort_key\<close> is.
\<close>

definition available :: "'w ProviderConfiguration \<Rightarrow> bool" where
  "available provider =
     (case checkAvailable provider of None \<Rightarrow> True | Some check \<Rightarrow> check ())"

definition getAvailableProviders ::
  "'w ProviderConfiguration list \<Rightarrow> 'w ProviderConfiguration list" where
  "getAvailableProviders reg = sort_key priority (filter available reg)"

text \<open>\<open>Array.prototype.findIndex\<close>; \<open>None\<close> stands for the result \<open>-1\<close>.\<close>

fun findIndex :: "('a \<Rightarrow> bool) \<Rightarrow> 'a list \<Rightarrow> nat option" where
  "findIndex P [] = None"
| "findIndex P (x # xs) =
     (if P x then Some 0 else map_option Suc (findIndex P xs))"

text \<open>
  The first part of \<open>executeWithFallback\<close>: the attempt order. The hint is optional
  (\<open>None\<close> is \<open>undefined\<close>); the guard \<open>preferredProvider && preferredProvider !== 'auto'\<close>
  asks for a non-empty string other than \<open>auto\<close>. \<open>splice(i, 1)[0]\<close> takes the
  element at \<open>i\<close> out of the array and the array keeps the others in place.
\<close>

definition attemptOrder ::
  "'w ProviderConfiguration list \<Rightarrow> string option \<Rightarrow> 'w ProviderConfiguration list" where
  "attemptOrder reg preferredProvider =
     (let sortedProviders = getAvailableProviders reg
      in case preferredProvider of
           None \<Rightarrow> sortedProviders
         | Some pref \<Rightarrow>
             if pref \<noteq> [] \<and> pref \<noteq> ''auto'' then
               (case findIndex (\<lambda>p. toLowerCase (name p) = toLowerCase pref) sortedProviders of
                  None \<Rightarrow> sortedProviders
                | Some preferredIndex \<Rightarrow>
                    (sortedProviders ! preferredIndex)
                      # (take preferredIndex sortedProviders
                         @ drop (Suc preferredIndex) sortedProviders))
             else sortedProviders)"

text \<open>
  The \<open>for\<close> loop of \<open>executeWithFallback\<close> and the \<open>throw\<close> after it. The result is
  the outcome, the world the last call left, and the providers on which \<open>operation\<close> was
  called, in call order. Both arms of the rate-limit test in the \<open>catch\<close> block
  \<open>continue\<close>.
\<close>

definition isRateLimit :: "error \<Rightarrow> bool" where
  "isRateLimit err =
     (str_includes (message err) ''429'' \<or> str_includes (message err) ''quota''
      \<or> str_includes (message err) ''rate limit'')"

fun attemptLoop ::
  "('w ProviderConfiguration \<Rightarrow> ('w, 'a) promise) \<Rightarrow> 'w ProviderConfiguration list \<Rightarrow>
   error option \<Rightarrow> 'w \<Rightarrow>
   (error + 'a \<times> string) \<times> 'w \<times> 'w ProviderConfiguration list" where
  "attemptLoop operation [] lastError w =
     (Inl (Error (case lastError of
                    Some e \<Rightarrow> ''All AI providers failed. Last error: '' @ message e
                  | None \<Rightarrow> ''No AI providers available'')),
      w, [])"
| "attemptLoop operation (provider # rest) lastError w =
     (case operation provider w of
        (Inr result, w') \<Rightarrow> (Inr (result, name provider), w', [provider])
      | (Inl err, w') \<Rightarrow>
          (case (if isRateLimit err
                 then attemptLoop operation rest (Some err) w'
                 else attemptLoop operation rest (Some err) w') of
             (out, w'', calls) \<Rightarrow> (out, w'', provider # calls)))"

definition executeWithFallback ::
  "'w ProviderConfiguration list \<Rightarrow> ('w ProviderConfiguration \<Rightarrow> ('w, 'a) promise) \<Rightarrow>
   string option \<Rightarrow> 'w \<Rightarrow>
   (error + 'a \<times> string) \<times> 'w \<times> 'w ProviderConfiguration list" where
  "executeWithFallback reg operation preferredProvider w =
     attemptLoop operation (attemptOrder reg preferredProvider) None w"

text \<open>
  What it means that every candidate of a list fails when they are tried in turn from a
  world: the recorded failures in order and the world left, or \<open>None\<close> when one of them
  succeeds.
\<close>

fun failures ::
  "('w ProviderConfiguration \<Rightarrow> ('w, 'a) promise) \<Rightarrow> 'w ProviderConfiguration list \<Rightarrow>
   'w \<Rightarrow> (error list \<times> 'w) option" where
  "failures operation [] w = Some ([], w)"
| "failures operation (provider # rest) w =
     (case operation provider w of
        (Inr _, _) \<Rightarrow> None
      | (Inl err, w') \<Rightarrow>
          map_option (\<lambda>(errs, w''). (err # errs, w'')) (failures operation rest w'))"

text \<open>
  The registry of the source, for any three adapters: only Groq has an availability check.
\<close>

definition providers ::
  "'w AIProvider \<Rightarrow> 'w AIProvider \<Rightarrow> 'w AIProvider \<Rightarrow> 'w ProviderConfiguration list" where
  "providers geminiService groqService huggingFaceService =
     [\<lparr>name = ''Gemini'', service = geminiService, priority = 1, checkAvailable = None\<rparr>,
      \<lparr>name = ''Groq'', service = groqService, priority = 2,
       checkAvailable = Some (\<lambda>_. isAvailable groqService ())\<rparr>,
      \<lparr>name = ''HuggingFace'', service = huggingFaceService, priority = 3,
       checkAvailable = None\<rparr>]"

subsection \<open>The operation wrappers\<close>

text \<open>
  \<open>new Date().toISOString()\<close> reads the clock of the world: \<open>now\<close> gives the ISO-8601
  string and the world after the reading. An optional parameter or field is an \<open>option\<close>,
  its default taken where the source takes it.
\<close>

type_synonym 'w clock = "'w \<Rightarrow> string \<times> 'w"

record AnalysisRequest =
  req_code :: string
  req_language :: "string option"
  req_analysisType :: "string option"
  req_preferredProvider :: "string option"

record Metadata =
  language :: string
  analysisType :: string
  timestamp :: string

record ProcessedAnalysisResult =
  analysis :: string
  provider :: string
  metadata :: Metadata

text \<open>
  The tail shared by the four wrappers: a rejection of \<open>executeWithFallback\<close> propagates;
  otherwise the result and the provider name are put in the envelope, with the time read
  after the orchestration has returned.
\<close>

definition envelope ::
  "'w clock \<Rightarrow> string \<Rightarrow> string \<Rightarrow>
   (error + string \<times> string) \<times> 'w \<times> 'w ProviderConfiguration list \<Rightarrow>
   (error + ProcessedAnalysisResult) \<times> 'w \<times> 'w ProviderConfiguration list" where
  "envelope now lang kind run =
     (case run of
        (Inl err, w, calls) \<Rightarrow> (Inl err, w, calls)
      | (Inr (resultText, providerName), w, calls) \<Rightarrow>
          (case now w of
             (stamp, w') \<Rightarrow>
               (Inr \<lparr>analysis = resultText, provider = providerName,
                     metadata = \<lparr>language = lang, analysisType = kind, timestamp = stamp\<rparr>\<rparr>,
                w', calls)))"

definition orDefault :: "'a option \<Rightarrow> 'a \<Rightarrow> 'a" where
  "orDefault v d = (case v of None \<Rightarrow> d | Some x \<Rightarrow> x)"

definition aiService_analyzeCode ::
  "'w ProviderConfiguration list \<Rightarrow> 'w clock \<Rightarrow> AnalysisRequest \<Rightarrow> 'w \<Rightarrow>
   (error + ProcessedAnalysisResult) \<times> 'w \<times> 'w ProviderConfiguration list" where
  "aiService_analyzeCode reg now request w =
     (let code = req_code request;
          lang = orDefault (req_language request) ''javascript'';
          kind = orDefault (req_analysisType request) ''general'';
          preferredProvider = orDefault (req_preferredProvider request) ''auto''
      in envelope now lang kind
           (executeWithFallback reg (\<lambda>p. analyzeCode (service p) code lang kind)
              (Some preferredProvider) w))"

definition aiService_explainCode ::
  "'w ProviderConfiguration list \<Rightarrow> 'w clock \<Rightarrow> string \<Rightarrow> string option \<Rightarrow> 'w \<Rightarrow>
   (error + ProcessedAnalysisResult) \<times> 'w \<times> 'w ProviderConfiguration list" where
  "aiService_explainCode reg now code langArg w =
     (let lang = orDefault langArg ''javascript''
      in envelope now lang ''explanation''
           (executeWithFallback reg (\<lambda>p. explainCode (service p) code lang) None w))"

definition aiService_suggestImprovements ::
  "'w ProviderConfiguration list \<Rightarrow> 'w clock \<Rightarrow> string \<Rightarrow> string option \<Rightarrow> jsval option \<Rightarrow>
   'w \<Rightarrow> (error + ProcessedAnalysisResult) \<times> 'w \<times> 'w ProviderConfiguration list" where
  "aiService_suggestImprovements reg now code langArg contextArg w =
     (let lang = orDefault langArg ''javascript'';
          context = orDefault contextArg (Str [])
      in envelope now lang ''improvements''
           (executeWithFallback reg (\<lambda>p. suggestImprovements (service p) code lang context)
              None w))"

text \<open>The closure that \<open>generateReport\<close> hands to \<open>executeWithFallback\<close>.\<close>

definition reportOperation ::
  "jsval list \<Rightarrow> jsval \<Rightarrow> 'w ProviderConfiguration \<Rightarrow> ('w, string) promise" where
  "reportOperation analysisResults projectInfo p =
     (case generateReport (service p) of
        Some gen \<Rightarrow> gen analysisResults projectInfo
      | None \<Rightarrow> (\<lambda>w. (Inl (Error ''Report generation not supported by this provider''), w)))"

definition aiService_generateReport ::
  "'w ProviderConfiguration list \<Rightarrow> 'w clock \<Rightarrow> jsval list \<Rightarrow> jsval \<Rightarrow> 'w \<Rightarrow>
   (error + ProcessedAnalysisResult) \<times> 'w \<times> 'w ProviderConfiguration list" where
  "aiService_generateReport reg now analysisResults projectInfo w =
     envelope now ''multiple'' ''report''
       (executeWithFallback reg (reportOperation analysisResults projectInfo) None w)"

section \<open>Validation and responses (utils/validation.ts, utils/responseUtils.ts)\<close>

definition validateCode :: "jsval \<Rightarrow> string option" where
  "validateCode code =
     (if falsy code \<or> typeof code \<noteq> ''string''
         \<or> (case code of Str s \<Rightarrow> length (trim s) = 0 | _ \<Rightarrow> False)
      then Some ''Code is required and must be a non-empty string''
      else if (case code of Str s \<Rightarrow> length s > 2000000 | _ \<Rightarrow> False)
      then Some ''Code is too large. Maximum size is 2MB''
      else None)"

definition supportedLanguages :: "string list" where
  "supportedLanguages =
     [''javascript'', ''typescript'', ''python'', ''java'', ''cpp'', ''c'', ''csharp'',
      ''php'', ''ruby'', ''go'', ''rust'', ''swift'', ''html'', ''css'', ''scss'', ''json'',
      ''markdown'', ''sql'', ''bash'', ''text'']"

definition validateLanguage :: "jsval \<Rightarrow> string" where
  "validateLanguage v =
     (if falsy v \<or> typeof v \<noteq> ''string'' then ''javascript''
      else (case v of
              Str s \<Rightarrow>
                if toLowerCase s \<in> set supportedLanguages then toLowerCase s
                else ''javascript''
            | _ \<Rightarrow> ''javascript''))"

definition validateAnalysisType :: "jsval \<Rightarrow> string" where
  "validateAnalysisType v =
     (case v of
        Str s \<Rightarrow>
          if s \<in> set [''general'', ''security'', ''performance'', ''maintainability'']
          then s else ''general''
      | _ \<Rightarrow> ''general'')"

definition validateProviderType :: "jsval \<Rightarrow> string" where
  "validateProviderType v =
     (case v of
        Str s \<Rightarrow>
          if s \<in> set [''gemini'', ''groq'', ''huggingface'', ''auto''] then s else ''auto''
      | _ \<Rightarrow> ''auto'')"

text \<open>A response: what \<open>res.status(statusCode).json(...)\<close> was given.\<close>

record response =
  status :: nat
  json :: jsval

definition sendSuccess :: "jsval \<Rightarrow> response" where
  "sendSuccess d = \<lparr>status = 200, json = Obj [(''success'', Bool True), (''data'', d)]\<rparr>"

definition sendError :: "string \<Rightarrow> string \<Rightarrow> nat \<Rightarrow> response" where
  "sendError err msg statusCode =
     \<lparr>status = statusCode,
      json = Obj [(''success'', Bool False), (''error'', Str err), (''message'', Str msg)]\<rparr>"

definition sendValidationError :: "string \<Rightarrow> response" where
  "sendValidationError msg = sendError ''Validation Error'' msg 400"

definition sendServerError :: "error \<Rightarrow> response" where
  "sendServerError err = sendError ''Internal Server Error'' (message err) 500"

section \<open>The request handlers (controllers/analysisController.ts)\<close>

text \<open>
  A handler takes the parsed body of the request (an object, as \<open>express.json\<close> leaves
  it) and gives the response, the world it leaves, and the providers that were called.
  \<open>res.json\<close> is given the result object, here as a \<open>jsval\<close>.
\<close>

definition resultJson :: "ProcessedAnalysisResult \<Rightarrow> jsval" where
  "resultJson r =
     Obj [(''analysis'', Str (analysis r)),
          (''provider'', Str (provider r)),
          (''metadata'',
             Obj [(''language'', Str (language (metadata r))),
                  (''analysisType'', Str (analysisType (metadata r))),
                  (''timestamp'', Str (timestamp (metadata r)))])]"

text \<open>
  \<open>return sendSuccess(res, result)\<close> after an \<open>await\<close> inside \<open>try\<close>, and the
  \<open>catch\<close> that answers with \<open>sendServerError\<close>.
\<close>

definition respond ::
  "(error + ProcessedAnalysisResult) \<times> 'w \<times> 'w ProviderConfiguration list \<Rightarrow>
   response \<times> 'w \<times> 'w ProviderConfiguration list" where
  "respond run =
     (case run of
        (Inl err, w, calls) \<Rightarrow> (sendServerError err, w, calls)
      | (Inr result, w, calls) \<Rightarrow> (sendSuccess (resultJson result), w, calls))"

text \<open>
  Where \<open>validateCode\<close> has let a value through it is a string; \<open>code.trim()\<close> on
  anything else would raise a \<open>TypeError\<close>, which the \<open>catch\<close> would answer.
\<close>

definition controller_analyzeCode ::
  "'w ProviderConfiguration list \<Rightarrow> 'w clock \<Rightarrow> (string \<times> jsval) list \<Rightarrow> 'w \<Rightarrow>
   response \<times> 'w \<times> 'w ProviderConfiguration list" where
  "controller_analyzeCode reg now body w =
     (let code = getField body ''code'';
          lang = getField body ''language'';
          kind = getField body ''analysisType'';
          preferredProvider = getField body ''preferredProvider''
      in case validateCode code of
           Some codeError \<Rightarrow> (sendValidationError codeError, w, [])
         | None \<Rightarrow>
             (case code of
                Str s \<Rightarrow>
                  respond (aiService_analyzeCode reg now
                    \<lparr>req_code = trim s,
                     req_language = Some (validateLanguage lang),
                     req_analysisType = Some (validateAnalysisType kind),
                     req_preferredProvider = Some (validateProviderType preferredProvider)\<rparr> w)
              | _ \<Rightarrow> (sendServerError (Error ''code.trim is not a function''), w, [])))"

definition controller_explainCode ::
  "'w ProviderConfiguration list \<Rightarrow> 'w clock \<Rightarrow> (string \<times> jsval) list \<Rightarrow> 'w \<Rightarrow>
   response \<times> 'w \<times> 'w ProviderConfiguration list" where
  "controller_explainCode reg now body w =
     (let code = getField body ''code'';
          lang = getField body ''language''
      in case validateCode code of
           Some codeError \<Rightarrow> (sendValidationError codeError, w, [])
         | None \<Rightarrow>
             (case code of
                Str s \<Rightarrow>
                  respond (aiService_explainCode reg now (trim s) (Some (validateLanguage lang)) w)
              | _ \<Rightarrow> (sendServerError (Error ''code.trim is not a function''), w, [])))"

definition controller_suggestImprovements ::
  "'w ProviderConfiguration list \<Rightarrow> 'w clock \<Rightarrow> (string \<times> jsval) list \<Rightarrow> 'w \<Rightarrow>
   response \<times> 'w \<times> 'w ProviderConfiguration list" where
  "controller_suggestImprovements reg now body w =
     (let code = getField body ''code'';
          lang = getField body ''language'';
          context = (case getField body ''context'' of Undefined \<Rightarrow> Str [] | v \<Rightarrow> v)
      in case validateCode code of
           Some codeError \<Rightarrow> (sendValidationError codeError, w, [])
         | None \<Rightarrow>
             (case code of
                Str s \<Rightarrow>
                  respond (aiService_suggestImprovements reg now (trim s)
                    (Some (validateLanguage lang)) (Some context) w)
              | _ \<Rightarrow> (sendServerError (Error ''code.trim is not a function''), w, [])))"

text \<open>
  \<open>Array.isArray\<close>, and the elements of an array (asked for only where \<open>isArray\<close>
  holds).
\<close>

fun isArray :: "jsval \<Rightarrow> bool" where
  "isArray (Arr _) = True"
| "isArray _ = False"

fun elements :: "jsval \<Rightarrow> jsval list" where
  "elements (Arr xs) = xs"
| "elements _ = []"

definition controller_generateReport ::
  "'w ProviderConfiguration list \<Rightarrow> 'w clock \<Rightarrow> (string \<times> jsval) list \<Rightarrow> 'w \<Rightarrow>
   response \<times> 'w \<times> 'w ProviderConfiguration list" where
  "controller_generateReport reg now body w =
     (let analysisResults = getField body ''analysisResults'';
          projectInfo = (case getField body ''projectInfo'' of Undefined \<Rightarrow> Obj [] | v \<Rightarrow> v)
      in if falsy analysisResults \<or> \<not> isArray analysisResults
            \<or> length (elements analysisResults) = 0
         then (sendValidationError
                 ''Analysis results must be provided as a non-empty array'', w, [])
         else
           (case aiService_generateReport reg now (elements analysisResults) projectInfo w of
              (Inl err, w', calls) \<Rightarrow> (sendServerError err, w', calls)
            | (Inr report, w', calls) \<Rightarrow>
                (case now w' of
                   (generatedAt, w'') \<Rightarrow>
                     (sendSuccess
                        (Obj [(''report'', resultJson report),
                              (''metadata'',
                                 Obj [(''projectInfo'', projectInfo),
                                      (''generatedAt'', Str generatedAt),
                                      (''resultsCount'',
                                         Num (int (length (elements analysisResults))))])]),
                      w'', calls))))"



section \<open>The Gemini adapter (services/geminiService.ts, config/config.ts)\<close>

subsection \<open>Retry with backoff\<close>

text \<open>
  The retried operation is a call into the client library, which may throw anything: an
  \<open>Error\<close> object or some other value. A failure of \<open>retryWithBackoff\<close> records which
  \<open>throw\<close> statement raised it: \<open>throw error\<close> inside the loop, or the
  \<open>throw new Error('Max retries exceeded')\<close> after it.
\<close>

datatype thrown = Thrown_Error error | Thrown_Other jsval

datatype retry_failure = Rethrown thrown | MaxRetriesExceeded

definition isRateLimitError :: "thrown \<Rightarrow> bool" where
  "isRateLimitError err =
     (case err of
        Thrown_Error e \<Rightarrow> str_includes (message e) ''429'' \<or> str_includes (message e) ''quota''
      | Thrown_Other _ \<Rightarrow> False)"

text \<open>
  The loop from a given value of \<open>attempt\<close>. \<open>maxRetries\<close> is an integral count (the one
  call site leaves it at its default 3, and \<open>baseDelay\<close> at 1000). \<open>sleep\<close> is the
  timer: what waiting a number of milliseconds does to the world. The result is the
  outcome, the world, the number of times \<open>operation\<close> was called and the delays slept,
  in order.
\<close>

function retryFrom ::
  "(int \<Rightarrow> 'w \<Rightarrow> 'w) \<Rightarrow> ('w \<Rightarrow> (thrown + 'a) \<times> 'w) \<Rightarrow> int \<Rightarrow> int \<Rightarrow> int \<Rightarrow> 'w \<Rightarrow>
   (retry_failure + 'a) \<times> 'w \<times> nat \<times> int list" where
  "retryFrom sleep operation maxRetries baseDelay attempt w =
     (if attempt \<le> maxRetries then
        (case operation w of
           (Inr v, w') \<Rightarrow> (Inr v, w', 1, [])
         | (Inl err, w') \<Rightarrow>
             if attempt = maxRetries \<or> \<not> isRateLimitError err
             then (Inl (Rethrown err), w', 1, [])
             else
               (case retryFrom sleep operation maxRetries baseDelay (attempt + 1)
                       (sleep (baseDelay * 2 ^ nat (attempt - 1)) w') of
                  (out, w'', n, delays) \<Rightarrow>
                    (out, w'', Suc n, baseDelay * 2 ^ nat (attempt - 1) # delays)))
      else (Inl MaxRetriesExceeded, w, 0, []))"
  by pat_completeness auto
termination
  by (relation "measure (\<lambda>(sleep, operation, maxRetries, baseDelay, attempt, w).
                           nat (maxRetries + 1 - attempt))") auto

declare retryFrom.simps [simp del]

definition retryWithBackoff ::
  "(int \<Rightarrow> 'w \<Rightarrow> 'w) \<Rightarrow> ('w \<Rightarrow> (thrown + 'a) \<times> 'w) \<Rightarrow> int \<Rightarrow> int \<Rightarrow> 'w \<Rightarrow>
   (retry_failure + 'a) \<times> 'w \<times> nat \<times> int list" where
  "retryWithBackoff sleep operation maxRetries baseDelay w =
     retryFrom sleep operation maxRetries baseDelay 1 w"


subsection \<open>Construction\<close>

text \<open>
  Of the configuration only \<open>gemini.apiKey\<close> is read here; it is
  \<open>process.env.GEMINI_API_KEY || ''\<close>, and nothing assigns to it afterwards. The
  environment is a map from variable names to strings.
\<close>

record GeminiConfig =
  apiKey :: string

record Config =
  gemini :: GeminiConfig

definition loadConfig :: "(string \<rightharpoonup> string) \<Rightarrow> Config" where
  "loadConfig env =
     \<lparr>gemini = \<lparr>apiKey = (case env ''GEMINI_API_KEY'' of
                            None \<Rightarrow> []
                          | Some k \<Rightarrow> if k = [] then [] else k)\<rparr>\<rparr>"

text \<open>
  An instance holds the client built from the key. The constructor throws on an empty
  key; \<open>isAvailable\<close> reads the configuration again.
\<close>

record GeminiService =
  genAI :: string

definition GeminiService_new :: "Config \<Rightarrow> error + GeminiService" where
  "GeminiService_new config =
     (if apiKey (gemini config) = [] then Inl (Error ''Gemini API key is required'')
      else Inr \<lparr>genAI = apiKey (gemini config)\<rparr>)"

definition gemini_isAvailable :: "Config \<Rightarrow> GeminiService \<Rightarrow> bool" where
  "gemini_isAvailable config g = (apiKey (gemini config) \<noteq> [])"

text \<open>
  Loading the module \<open>aiService\<close> first loads \<open>geminiService\<close>, whose last line is
  \<open>export default new GeminiService()\<close>: an exception there ends the loading. The
  methods of the three adapters are parameters.
\<close>

definition aiService_module ::
  "(string \<rightharpoonup> string) \<Rightarrow> (GeminiService \<Rightarrow> 'w AIProvider) \<Rightarrow> 'w AIProvider \<Rightarrow> 'w AIProvider \<Rightarrow>
   error + 'w ProviderConfiguration list" where
  "aiService_module env geminiMethods groqService huggingFaceService =
     (case GeminiService_new (loadConfig env) of
        Inl err \<Rightarrow> Inl err
      | Inr g \<Rightarrow> Inr (providers (geminiMethods g) groqService huggingFaceService))"

section \<open>The other adapters (services/groqService.ts, services/huggingFaceService.ts)\<close>

text \<open>
  The Groq and the HuggingFace adapter are built whether or not their key is set, and
  their \<open>isAvailable\<close> is \<open>!!this.config.apiKey\<close>, the key being
  \<open>process.env.GROQ_API_KEY\<close> and \<open>process.env.HUGGINGFACE_API_KEY\<close>.
\<close>

definition envSet :: "(string \<rightharpoonup> string) \<Rightarrow> string \<Rightarrow> bool" where
  "envSet env k = (case env k of None \<Rightarrow> False | Some v \<Rightarrow> v \<noteq> [])"

definition groq_isAvailable :: "(string \<rightharpoonup> string) \<Rightarrow> bool" where
  "groq_isAvailable env = envSet env ''GROQ_API_KEY''"

definition huggingFace_isAvailable :: "(string \<rightharpoonup> string) \<Rightarrow> bool" where
  "huggingFace_isAvailable env = envSet env ''HUGGINGFACE_API_KEY''"

section \<open>Test doubles\<close>

text \<open>
  Adapters for concrete runs. The world is the number of remote calls made so far. A
  stub adapter answers every operation with one fixed outcome, and reports with another
  where it has the report capability at all.
\<close>

definition stubService ::
  "bool \<Rightarrow> error + string \<Rightarrow> (error + string) option \<Rightarrow> nat AIProvider" where
  "stubService avail out rep =
     \<lparr>isAvailable = (\<lambda>_. avail),
      analyzeCode = (\<lambda>code lang kind w. (out, Suc w)),
      explainCode = (\<lambda>code lang w. (out, Suc w)),
      suggestImprovements = (\<lambda>code lang context w. (out, Suc w)),
      generateReport = map_option (\<lambda>r. (\<lambda>results info w. (r, Suc w))) rep\<rparr>"

definition stubClock :: "nat clock" where
  "stubClock w =
     (if w = 0 then ''1970-01-01T00:00:00.000Z''
      else if w = 1 then ''1970-01-01T00:00:01.000Z''
      else ''1970-01-01T00:00:02.000Z'', w)"

definition analyzeOperation :: "'w ProviderConfiguration \<Rightarrow> ('w, string) promise" where
  "analyzeOperation p = analyzeCode (service p) ''x = 1'' ''javascript'' ''general''"

text \<open>Gemini is rate limited, Groq answers and can report, HuggingFace is not reached.\<close>

definition registry1 :: "nat ProviderConfiguration list" where
  "registry1 =
     providers (stubService True (Inl (Error ''429 Too Many Requests'')) None)
               (stubService True (Inr ''looks fine'') (Some (Inr ''the report'')))
               (stubService True (Inr ''unused'') None)"

text \<open>Groq has no credential; the other two fail.\<close>

definition registry2 :: "nat ProviderConfiguration list" where
  "registry2 =
     providers (stubService True (Inl (Error ''quota exceeded'')) None)
               (stubService False (Inr ''never asked'') None)
               (stubService True (Inl (Error ''Hugging Face analysis failed: timeout'')) None)"


text \<open>
  Operations for \<open>retryWithBackoff\<close>: one that is rate limited on every call, one that
  fails for another reason on every call. Sleeping leaves the call count as it is.
\<close>

definition alwaysRateLimited :: "nat \<Rightarrow> (thrown + string) \<times> nat" where
  "alwaysRateLimited w = (Inl (Thrown_Error (Error ''[429 Too Many Requests] quota'')), Suc w)"


definition stubSleep :: "int \<Rightarrow> nat \<Rightarrow> nat" where
  "stubSleep ms w = w"



text \<open>
  The registry as it is when only the Gemini key is set: the Groq and the HuggingFace
  adapter report themselves unavailable, and every call fails.
\<close>

definition geminiOnlyEnv :: "string \<rightharpoonup> string" where
  "geminiOnlyEnv = [''GEMINI_API_KEY'' \<mapsto> ''k-123'']"

definition registry3 :: "nat ProviderConfiguration list" where
  "registry3 =
     providers
       (stubService True
          (Inl (Error ''Code analysis failed: fetch failed'')) None)
       (stubService (groq_isAvailable geminiOnlyEnv)
          (Inl (Error ''Groq client not initialized - missing API key'')) None)
       (stubService (huggingFace_isAvailable geminiOnlyEnv)
          (Inl (Error ''Hugging Face analysis failed: Hugging Face API error: Unauthorized''))
          None)"

text \<open>An analyze request.\<close>

definition analyzeBody :: "(string \<times> jsval) list" where
  "analyzeBody = [(''code'', Str ''x = 1''), (''language'', Str ''python'')]"

section \<open>Properties of the attempt loop\<close>

lemma attemptLoop_failures:
  "failures operation ps w = Some (errs, w') \<Longrightarrow>
   attemptLoop operation ps lastError w =
     (Inl (Error (case (if errs = [] then lastError else Some (last errs)) of
                    Some e \<Rightarrow> ''All AI providers failed. Last error: '' @ message e
                  | None \<Rightarrow> ''No AI providers available'')),
      w', ps)"
proof (induction ps arbitrary: w errs lastError)
  case Nil
  then show ?case by simp
next
  case (Cons p ps)
  obtain out w1 where op: "operation p w = (out, w1)"
    by (cases "operation p w")
  show ?case
  proof (cases out)
    case (Inr r)
    with Cons.prems op show ?thesis by simp
  next
    case (Inl err)
    with Cons.prems op obtain errs' where
      rest: "failures operation ps w1 = Some (errs', w')" and errs: "errs = err # errs'"
      by auto
    from Cons.IH [OF rest, of "Some err"] op Inl errs show ?thesis
      by simp
  qed
qed

lemma failures_length:
  "failures operation ps w = Some (errs, w') \<Longrightarrow> length errs = length ps"
proof (induction ps arbitrary: w errs)
  case Nil
  then show ?case by simp
next
  case (Cons p ps)
  then show ?case
    by (auto split: prod.splits sum.splits)
qed

lemma attemptLoop_first_success:
  assumes "failures operation pre w = Some (errs, w1)"
    and "operation p w1 = (Inr r, w2)"
  shows "attemptLoop operation (pre @ p # post) lastError w =
           (Inr (r, name p), w2, pre @ [p])"
  using assms
proof (induction pre arbitrary: w errs lastError)
  case Nil
  then show ?case by simp
next
  case (Cons q pre)
  obtain out w' where op: "operation q w = (out, w')"
    by (cases "operation q w")
  show ?case
  proof (cases out)
    case (Inr r')
    with Cons.prems op show ?thesis by simp
  next
    case (Inl err)
    with Cons.prems op obtain errs' where
      rest: "failures operation pre w' = Some (errs', w1)"
      by auto
    from Cons.IH [OF rest Cons.prems(2), of "Some err"] op Inl show ?thesis
      by simp
  qed
qed

section \<open>Properties of the attempt order\<close>

lemma findIndex_Some:
  "findIndex P xs = Some i \<Longrightarrow> i < length xs \<and> P (xs ! i) \<and> (\<forall>j<i. \<not> P (xs ! j))"
proof (induction xs arbitrary: i)
  case Nil
  then show ?case by simp
next
  case (Cons x xs)
  show ?case
  proof (cases "P x")
    case True
    with Cons.prems show ?thesis by simp
  next
    case False
    with Cons.prems obtain k where k: "findIndex P xs = Some k" and i: "i = Suc k"
      by auto
    from Cons.IH [OF k] False i show ?thesis
      by (auto simp: less_Suc_eq_0_disj)
  qed
qed

lemma findIndex_find:
  "findIndex P xs = Some i \<Longrightarrow> find P xs = Some (xs ! i)"
  by (induction xs arbitrary: i) (auto split: if_splits)

lemma findIndex_None: "findIndex P xs = None \<longleftrightarrow> find P xs = None"
  by (induction xs) auto

lemma splice_remove1:
  "findIndex P xs = Some i \<Longrightarrow> take i xs @ drop (Suc i) xs = remove1 (xs ! i) xs"
proof (induction xs arbitrary: i)
  case Nil
  then show ?case by simp
next
  case (Cons x xs)
  show ?case
  proof (cases "P x")
    case True
    with Cons.prems show ?thesis by simp
  next
    case False
    with Cons.prems obtain k where k: "findIndex P xs = Some k" and i: "i = Suc k"
      by auto
    from findIndex_Some [OF k] False have "xs ! k \<noteq> x" by auto
    with Cons.IH [OF k] i show ?thesis by simp
  qed
qed

lemma mset_splice:
  "i < length xs \<Longrightarrow> mset (xs ! i # take i xs @ drop (Suc i) xs) = mset xs"
proof -
  assume "i < length xs"
  then have "xs = take i xs @ xs ! i # drop (Suc i) xs"
    by (rule id_take_nth_drop)
  then have "mset xs = mset (take i xs @ xs ! i # drop (Suc i) xs)"
    by simp
  then show ?thesis by simp
qed

lemma mset_attemptOrder:
  "mset (attemptOrder reg pref) = mset (filter available reg)"
proof -
  have s: "mset (getAvailableProviders reg) = mset (filter available reg)"
    by (simp add: getAvailableProviders_def)
  show ?thesis
  proof (cases pref)
    case None
    with s show ?thesis by (simp add: attemptOrder_def)
  next
    case (Some n)
    show ?thesis
    proof (cases "findIndex (\<lambda>p. toLowerCase (name p) = toLowerCase n) (getAvailableProviders reg)")
      case None
      with Some s show ?thesis by (simp add: attemptOrder_def Let_def)
    next
      case (Some i)
      from findIndex_Some [OF Some] have "i < length (getAvailableProviders reg)" by simp
      from mset_splice [OF this] s Some \<open>pref = Some n\<close> show ?thesis
        by (simp add: attemptOrder_def Let_def)
    qed
  qed
qed

lemma set_attemptOrder:
  "set (attemptOrder reg pref) = {p \<in> set reg. available p}"
proof -
  have "set (attemptOrder reg pref) = set_mset (mset (attemptOrder reg pref))" by simp
  also have "\<dots> = set_mset (mset (filter available reg))" by (simp only: mset_attemptOrder)
  finally show ?thesis by auto
qed

lemma attemptLoop_calls_prefix:
  "prefix (snd (snd (attemptLoop operation ps lastError w))) ps"
proof (induction ps arbitrary: lastError w)
  case Nil
  then show ?case by simp
next
  case (Cons p ps)
  obtain out w' where op: "operation p w = (out, w')" by (cases "operation p w")
  show ?case
  proof (cases out)
    case (Inr r)
    with op show ?thesis by simp
  next
    case (Inl err)
    with op Cons.IH [of "Some err" w'] show ?thesis
      by (auto split: prod.splits)
  qed
qed

lemma str_includes_append: "str_includes (xs @ ys) ys"
proof (induction xs)
  case Nil
  show ?case by (cases ys) simp_all
next
  case (Cons x xs)
  then show ?case by simp
qed

lemma filter_removeAll_other: "\<not> P x \<Longrightarrow> filter P (removeAll x xs) = filter P xs"
  by (induction xs) auto

lemma toLowerCase_names:
  "toLowerCase ''Gemini'' = ''gemini''"
  "toLowerCase ''Groq'' = ''groq''"
  "toLowerCase ''HuggingFace'' = ''huggingface''"
  "toLowerCase ''HUGGINGFACE'' = ''huggingface''"
  "toLowerCase ''groq'' = ''groq''"
  by code_simp+

text \<open>
  C2. The attempt order is a permutation of the available providers. The sorted list of
  available providers is ascending in priority, and it is the attempt order when the hint
  is absent (undefined or the empty string, which the guard treats alike) or \<open>auto\<close>,
  and when no available provider has the hinted name. When the hint is a name that
  matches, case-insensitively, an available provider, the first such provider \<open>p\<close> is at
  position 0 and the others follow as they were in the sorted list: the order is
  \<open>p\<close> followed by the sorted list with \<open>p\<close> taken out.
\<close>

theorem attemptOrder_stable_permutation:
  "mset (attemptOrder reg pref) = mset (filter available reg)
   \<and> sorted (map priority (getAvailableProviders reg))
   \<and> (pref = None \<or> pref = Some [] \<or> pref = Some ''auto''
        \<longrightarrow> attemptOrder reg pref = getAvailableProviders reg)
   \<and> (\<forall>n p. pref = Some n \<and> n \<noteq> [] \<and> n \<noteq> ''auto''
          \<and> find (\<lambda>q. toLowerCase (name q) = toLowerCase n) (getAvailableProviders reg) = Some p
        \<longrightarrow> attemptOrder reg pref = p # remove1 p (getAvailableProviders reg))
   \<and> (\<forall>n. pref = Some n
          \<and> find (\<lambda>q. toLowerCase (name q) = toLowerCase n) (getAvailableProviders reg) = None
        \<longrightarrow> attemptOrder reg pref = getAvailableProviders reg)"
proof (intro conjI allI impI)
  show "mset (attemptOrder reg pref) = mset (filter available reg)"
    by (rule mset_attemptOrder)
  show "sorted (map priority (getAvailableProviders reg))"
    by (simp add: getAvailableProviders_def)
next
  assume "pref = None \<or> pref = Some [] \<or> pref = Some ''auto''"
  then show "attemptOrder reg pref = getAvailableProviders reg"
    by (auto simp: attemptOrder_def)
next
  fix n p
  assume h: "pref = Some n \<and> n \<noteq> [] \<and> n \<noteq> ''auto''
          \<and> find (\<lambda>q. toLowerCase (name q) = toLowerCase n) (getAvailableProviders reg) = Some p"
  let ?P = "\<lambda>q. toLowerCase (name q) = toLowerCase n"
  let ?s = "getAvailableProviders reg"
  from h have "findIndex ?P ?s \<noteq> None" by (simp add: findIndex_None)
  then obtain i where i: "findIndex ?P ?s = Some i" by auto
  from findIndex_find [OF i] h have p: "?s ! i = p" by simp
  from splice_remove1 [OF i] p have "take i ?s @ drop (Suc i) ?s = remove1 p ?s" by simp
  with h i p show "attemptOrder reg pref = p # remove1 p ?s"
    by (simp add: attemptOrder_def Let_def)
next
  fix n
  assume h: "pref = Some n
          \<and> find (\<lambda>q. toLowerCase (name q) = toLowerCase n) (getAvailableProviders reg) = None"
  then have "findIndex (\<lambda>q. toLowerCase (name q) = toLowerCase n) (getAvailableProviders reg) = None"
    by (simp add: findIndex_None)
  with h show "attemptOrder reg pref = getAvailableProviders reg"
    by (simp add: attemptOrder_def Let_def)
qed

theorem attemptOrder_stable_permutation_witness:
  "find (\<lambda>q. toLowerCase (name q) = toLowerCase ''HUGGINGFACE'') (getAvailableProviders registry1)
     = Some (registry1 ! 2)
   \<and> attemptOrder registry1 (Some ''HUGGINGFACE'') = [registry1 ! 2, registry1 ! 0, registry1 ! 1]
   \<and> attemptOrder registry1 (Some ''auto'') = [registry1 ! 0, registry1 ! 1, registry1 ! 2]"
proof -
  have s: "getAvailableProviders registry1 = registry1"
    by (simp add: registry1_def providers_def stubService_def getAvailableProviders_def
        available_def)
  have f: "find (\<lambda>q. toLowerCase (name q) = toLowerCase ''HUGGINGFACE'') (getAvailableProviders registry1)
             = Some (registry1 ! 2)"
    unfolding s
    by (simp add: registry1_def providers_def toLowerCase_names)
  have r: "remove1 (registry1 ! 2) registry1 = [registry1 ! 0, registry1 ! 1]"
    by (simp add: registry1_def providers_def)
  from attemptOrder_stable_permutation [of registry1 "Some ''HUGGINGFACE''"] f
  have "attemptOrder registry1 (Some ''HUGGINGFACE'')
          = registry1 ! 2 # remove1 (registry1 ! 2) (getAvailableProviders registry1)"
    by simp
  with s r have moved:
    "attemptOrder registry1 (Some ''HUGGINGFACE'') = [registry1 ! 2, registry1 ! 0, registry1 ! 1]"
    by simp
  from attemptOrder_stable_permutation [of registry1 "Some ''auto''"]
  have "attemptOrder registry1 (Some ''auto'') = getAvailableProviders registry1"
    by simp
  with s have auto: "attemptOrder registry1 (Some ''auto'') = [registry1 ! 0, registry1 ! 1, registry1 ! 2]"
    by (simp add: registry1_def providers_def)
  from f moved auto show ?thesis by blast
qed

section \<open>The claims about the attempt loop\<close>

text \<open>
  C1. First success wins. When the attempt order is \<open>pre @ p # post\<close>, every candidate
  of \<open>pre\<close> fails when tried in turn, and \<open>p\<close> then succeeds with \<open>result\<close>,
  \<open>executeWithFallback\<close> returns \<open>result\<close> with the name of \<open>p\<close>, and the operation was
  called on \<open>pre\<close> and \<open>p\<close> only: no candidate of \<open>post\<close> is called.
\<close>

theorem executeWithFallback_first_success_wins:
  assumes "attemptOrder reg preferredProvider = pre @ p # post"
    and "failures operation pre w = Some (errs, w1)"
    and "operation p w1 = (Inr result, w2)"
  shows "executeWithFallback reg operation preferredProvider w =
           (Inr (result, name p), w2, pre @ [p])"
  using assms attemptLoop_first_success [of operation pre w errs w1 p result w2 post None]
  by (simp add: executeWithFallback_def)

theorem executeWithFallback_first_success_wins_witness:
  "executeWithFallback registry1 analyzeOperation (Some ''auto'') 0 =
     (Inr (''looks fine'', ''Groq''), 2, [registry1 ! 0, registry1 ! 1])"
  using executeWithFallback_first_success_wins
    [of registry1 "Some ''auto''" "[registry1 ! 0]" "registry1 ! 1" "[registry1 ! 2]"
        analyzeOperation 0 "[Error ''429 Too Many Requests'']" 1 "''looks fine''" 2]
  by (simp add: registry1_def providers_def stubService_def analyzeOperation_def
      attemptOrder_def getAvailableProviders_def available_def)

text \<open>
  C4. Exhaustion. When every candidate of the attempt order fails, \<open>executeWithFallback\<close>
  fails with one error, after calling the operation on every candidate: its message is
  \<open>No AI providers available\<close> when there was no candidate, and otherwise
  \<open>All AI providers failed. Last error: \<close> followed by the message of the last failure,
  which it therefore contains.
\<close>

theorem executeWithFallback_exhausted:
  assumes "failures operation (attemptOrder reg preferredProvider) w = Some (errs, w')"
  shows "executeWithFallback reg operation preferredProvider w =
           (Inl (Error (if attemptOrder reg preferredProvider = []
                        then ''No AI providers available''
                        else ''All AI providers failed. Last error: '' @ message (last errs))),
            w', attemptOrder reg preferredProvider)
         \<and> (attemptOrder reg preferredProvider \<noteq> [] \<longrightarrow>
              str_includes (''All AI providers failed. Last error: '' @ message (last errs))
                (message (last errs)))"
proof -
  from failures_length [OF assms]
  have "errs = [] \<longleftrightarrow> attemptOrder reg preferredProvider = []"
    by auto
  with attemptLoop_failures [OF assms, of None]
  have main: "executeWithFallback reg operation preferredProvider w =
           (Inl (Error (if attemptOrder reg preferredProvider = []
                        then ''No AI providers available''
                        else ''All AI providers failed. Last error: '' @ message (last errs))),
            w', attemptOrder reg preferredProvider)"
    by (auto simp: executeWithFallback_def)
  have inc: "str_includes (''All AI providers failed. Last error: '' @ message (last errs))
                (message (last errs))"
    by (rule str_includes_append)
  from main inc show ?thesis by blast
qed

theorem executeWithFallback_exhausted_witness:
  "executeWithFallback registry2 analyzeOperation None 0 =
     (Inl (Error ''All AI providers failed. Last error: Hugging Face analysis failed: timeout''),
      2, [registry2 ! 0, registry2 ! 2])"
  using executeWithFallback_exhausted
    [of analyzeOperation registry2 None 0
        "[Error ''quota exceeded'', Error ''Hugging Face analysis failed: timeout'']" 2]
  by (simp add: registry2_def providers_def stubService_def analyzeOperation_def
      attemptOrder_def getAvailableProviders_def available_def)

text \<open>
  Where the registry entry of a provider has an availability check and the check returns
  false, the provider is not in the attempt order, whatever the hint; the operation is
  never called on it; and the whole run is the run of the registry without it.
\<close>

lemma checked_unavailable_provider_excluded:
  assumes "checkAvailable p = Some check" and "\<not> check ()"
  shows "p \<notin> set (attemptOrder reg preferredProvider)
         \<and> p \<notin> set (snd (snd (executeWithFallback reg operation preferredProvider w)))
         \<and> executeWithFallback (removeAll p reg) operation preferredProvider w
             = executeWithFallback reg operation preferredProvider w"
proof -
  from assms have na: "\<not> available p"
    by (simp add: available_def)
  then have notin: "p \<notin> set (attemptOrder reg preferredProvider)"
    by (simp add: set_attemptOrder)
  have "set (snd (snd (executeWithFallback reg operation preferredProvider w)))
          \<subseteq> set (attemptOrder reg preferredProvider)"
    unfolding executeWithFallback_def
    by (rule set_mono_prefix) (rule attemptLoop_calls_prefix)
  with notin have calls: "p \<notin> set (snd (snd (executeWithFallback reg operation preferredProvider w)))"
    by blast
  from na have "getAvailableProviders (removeAll p reg) = getAvailableProviders reg"
    by (simp add: getAvailableProviders_def filter_removeAll_other)
  then have "attemptOrder (removeAll p reg) preferredProvider = attemptOrder reg preferredProvider"
    by (simp add: attemptOrder_def)
  then have "executeWithFallback (removeAll p reg) operation preferredProvider w
             = executeWithFallback reg operation preferredProvider w"
    by (simp add: executeWithFallback_def)
  with notin calls show ?thesis by simp
qed

text \<open>
  C3 says that a provider whose availability predicate returns false never appears in the
  attempt sequence, is never called and never shows in the failure diagnostics. The
  registry entry of HuggingFace has no availability check, unlike that of Groq. With
  only the Gemini key set, the HuggingFace adapter reports itself unavailable and still
  is a candidate (and is moved to the front by a hint naming it); when Gemini fails it is
  called, and its failure is the one the aggregate error reports.
\<close>

theorem unavailable_huggingface_is_attempted:
  "name (registry3 ! 2) = ''HuggingFace''
   \<and> isAvailable (service (registry3 ! 2)) () = False
   \<and> isAvailable (service (registry3 ! 1)) () = False
   \<and> attemptOrder registry3 None = [registry3 ! 0, registry3 ! 2]
   \<and> attemptOrder registry3 (Some ''HUGGINGFACE'') = [registry3 ! 2, registry3 ! 0]
   \<and> executeWithFallback registry3 analyzeOperation None 0 =
       (Inl (Error ''All AI providers failed. Last error: Hugging Face analysis failed: Hugging Face API error: Unauthorized''),
        2, [registry3 ! 0, registry3 ! 2])"
proof -
  have av: "groq_isAvailable geminiOnlyEnv = False" "huggingFace_isAvailable geminiOnlyEnv = False"
    by (simp_all add: groq_isAvailable_def huggingFace_isAvailable_def envSet_def geminiOnlyEnv_def)
  have s: "getAvailableProviders registry3 = [registry3 ! 0, registry3 ! 2]"
    by (simp add: registry3_def providers_def stubService_def getAvailableProviders_def
        available_def av)
  have a: "name (registry3 ! 2) = ''HuggingFace''"
    by (simp add: registry3_def providers_def)
  have b: "isAvailable (service (registry3 ! 2)) () = False"
    "isAvailable (service (registry3 ! 1)) () = False"
    by (simp_all add: registry3_def providers_def stubService_def av)
  have c: "attemptOrder registry3 None = [registry3 ! 0, registry3 ! 2]"
    by (simp add: attemptOrder_def s)
  have d: "attemptOrder registry3 (Some ''HUGGINGFACE'') = [registry3 ! 2, registry3 ! 0]"
    by (simp add: attemptOrder_def s)
       (simp add: registry3_def providers_def toLowerCase_names)
  have e: "executeWithFallback registry3 analyzeOperation None 0 =
       (Inl (Error ''All AI providers failed. Last error: Hugging Face analysis failed: Hugging Face API error: Unauthorized''),
        2, [registry3 ! 0, registry3 ! 2])"
    unfolding executeWithFallback_def c
    by (simp add: registry3_def providers_def stubService_def analyzeOperation_def)
  from a b c d e show ?thesis by blast
qed

section \<open>Report generation\<close>

lemma failures_unsupported:
  "\<forall>p \<in> set pre. generateReport (service p) = None \<Longrightarrow>
   failures (reportOperation analysisResults projectInfo) pre w =
     Some (replicate (length pre) (Error ''Report generation not supported by this provider''), w)"
  by (induction pre) (simp_all add: reportOperation_def)

lemma attemptOrder_no_hint: "attemptOrder reg None = getAvailableProviders reg"
  by (simp add: attemptOrder_def)

text \<open>
  C6. When the available providers, in priority order, are \<open>pre @ p2 # post\<close>, no
  provider of \<open>pre\<close> has the report capability, and \<open>p2\<close> has it and its call resolves
  with \<open>report\<close>, then each provider of \<open>pre\<close> is one failed attempt with the error
  \<open>Report generation not supported by this provider\<close> (the world untouched), the loop
  goes on, and \<open>generateReport\<close> returns the report of \<open>p2\<close> under the name of \<open>p2\<close>,
  having called the operation on \<open>pre\<close> and \<open>p2\<close> only.
\<close>

theorem generateReport_skips_unsupported:
  assumes "getAvailableProviders reg = pre @ p2 # post"
    and "\<forall>p \<in> set pre. generateReport (service p) = None"
    and "generateReport (service p2) = Some gen"
    and "gen analysisResults projectInfo w = (Inr report, w1)"
    and "now w1 = (stamp, w2)"
  shows "failures (reportOperation analysisResults projectInfo) pre w =
           Some (replicate (length pre)
                   (Error ''Report generation not supported by this provider''), w)
         \<and> aiService_generateReport reg now analysisResults projectInfo w =
             (Inr \<lparr>analysis = report, provider = name p2,
                   metadata = \<lparr>language = ''multiple'', analysisType = ''report'',
                               timestamp = stamp\<rparr>\<rparr>,
              w2, pre @ [p2])"
proof -
  let ?op = "reportOperation analysisResults projectInfo"
  have fl: "failures ?op pre w =
           Some (replicate (length pre)
                   (Error ''Report generation not supported by this provider''), w)"
    using assms(2) by (rule failures_unsupported)
  from assms(3,4) have ok: "?op p2 w = (Inr report, w1)"
    by (simp add: reportOperation_def)
  from assms(1) have ord: "attemptOrder reg None = pre @ p2 # post"
    by (simp add: attemptOrder_no_hint)
  have "executeWithFallback reg ?op None w = (Inr (report, name p2), w1, pre @ [p2])"
    unfolding executeWithFallback_def ord
    using fl ok by (rule attemptLoop_first_success)
  with assms(5) fl show ?thesis
    by (simp add: aiService_generateReport_def envelope_def)
qed

theorem generateReport_skips_unsupported_witness:
  "aiService_generateReport registry1 stubClock [Str ''r1''] (Obj []) 0 =
     (Inr \<lparr>analysis = ''the report'', provider = ''Groq'',
           metadata = \<lparr>language = ''multiple'', analysisType = ''report'',
                       timestamp = ''1970-01-01T00:00:01.000Z''\<rparr>\<rparr>,
      1, [registry1 ! 0, registry1 ! 1])"
proof -
  have s: "getAvailableProviders registry1 = [registry1 ! 0] @ registry1 ! 1 # [registry1 ! 2]"
    by (simp add: registry1_def providers_def stubService_def getAvailableProviders_def
        available_def)
  have a: "\<forall>p \<in> set [registry1 ! 0]. generateReport (service p) = None"
    by (simp add: registry1_def providers_def stubService_def)
  have b: "generateReport (service (registry1 ! 1)) = Some (\<lambda>results info w. (Inr ''the report'', Suc w))"
    by (simp add: registry1_def providers_def stubService_def)
  have d: "stubClock 1 = (''1970-01-01T00:00:01.000Z'', 1)"
    by (simp add: stubClock_def)
  have n: "name (registry1 ! 1) = ''Groq''"
    by (simp add: registry1_def providers_def)
  from generateReport_skips_unsupported
         [of registry1 "[registry1 ! 0]" "registry1 ! 1" "[registry1 ! 2]"
             "\<lambda>results info w. (Inr ''the report'', Suc w)" "[Str ''r1'']" "Obj []" 0
             "''the report''" 1 stubClock "''1970-01-01T00:00:01.000Z''" 1]
       s a b d n
  show ?thesis
    by simp
qed

lemma attemptLoop_success_last:
  "attemptLoop operation ps lastError w = (Inr (r, n), w', calls) \<Longrightarrow>
   calls \<noteq> [] \<and> n = name (last calls) \<and> (\<exists>w0. operation (last calls) w0 = (Inr r, w'))"
proof (induction ps arbitrary: lastError w calls)
  case Nil
  then show ?case by simp
next
  case (Cons p ps)
  obtain out w1 where op: "operation p w = (out, w1)" by (cases "operation p w")
  show ?case
  proof (cases out)
    case (Inr r')
    with Cons.prems op show ?thesis by auto
  next
    case (Inl err)
    with Cons.prems op obtain calls' where
      rest: "attemptLoop operation ps (Some err) w1 = (Inr (r, n), w', calls')"
      and calls: "calls = p # calls'"
      by (auto split: prod.splits)
    from Cons.IH [OF rest] calls show ?thesis by auto
  qed
qed

lemma aiService_generateReport_success:
  assumes "aiService_generateReport reg now results info w = (Inr report, wA, calls)"
  shows "language (metadata report) = ''multiple'' \<and> analysisType (metadata report) = ''report''
         \<and> calls \<noteq> [] \<and> provider report = name (last calls)
         \<and> (\<exists>w0 w1. reportOperation results info (last calls) w0 = (Inr (analysis report), w1)
                     \<and> now w1 = (timestamp (metadata report), wA))"
proof -
  obtain out w1 calls' where
    ex: "executeWithFallback reg (reportOperation results info) None w = (out, w1, calls')"
    by (cases "executeWithFallback reg (reportOperation results info) None w") auto
  show ?thesis
  proof (cases out)
    case (Inl err)
    with assms ex show ?thesis
      by (simp add: aiService_generateReport_def envelope_def)
  next
    case (Inr pair)
    obtain r n where pair: "pair = (r, n)" by (cases pair)
    obtain stamp w2 where clk: "now w1 = (stamp, w2)" by (cases "now w1")
    from assms ex Inr pair clk have
      rep: "report = \<lparr>analysis = r, provider = n,
                      metadata = \<lparr>language = ''multiple'', analysisType = ''report'',
                                  timestamp = stamp\<rparr>\<rparr>"
      and w: "wA = w2" and c: "calls = calls'"
      by (simp_all add: aiService_generateReport_def envelope_def)
    from ex Inr pair have
      "attemptLoop (reportOperation results info) (attemptOrder reg None) None w
         = (Inr (r, n), w1, calls')"
      by (simp add: executeWithFallback_def)
    from attemptLoop_success_last [OF this] rep w c clk show ?thesis
      by auto
  qed
qed

text \<open>
  What every successful answer of the report handler (status 200) holds: the body is
  \<open>{success: true, data: {report, metadata}}\<close>, where \<open>data.report\<close> is the whole result
  of the service and \<open>data.metadata\<close> is \<open>{projectInfo, generatedAt, resultsCount}\<close>.
\<close>

lemma report_payload_shape:
  assumes "controller_generateReport reg now body w = (resp, w', calls)"
    and "status resp = 200"
  shows "\<exists>results report info generatedAt w0 w1 w2.
           getField body ''analysisResults'' = Arr results
         \<and> info = (case getField body ''projectInfo'' of Undefined \<Rightarrow> Obj [] | v \<Rightarrow> v)
         \<and> aiService_generateReport reg now results info w = (Inr report, w2, calls)
         \<and> calls \<noteq> [] \<and> provider report = name (last calls)
         \<and> reportOperation results info (last calls) w0 = (Inr (analysis report), w1)
         \<and> now w1 = (timestamp (metadata report), w2)
         \<and> now w2 = (generatedAt, w')
         \<and> json resp =
             Obj [(''success'', Bool True),
                  (''data'',
                     Obj [(''report'',
                             Obj [(''analysis'', Str (analysis report)),
                                  (''provider'', Str (provider report)),
                                  (''metadata'',
                                     Obj [(''language'', Str ''multiple''),
                                          (''analysisType'', Str ''report''),
                                          (''timestamp'', Str (timestamp (metadata report)))])]),
                          (''metadata'',
                             Obj [(''projectInfo'', info),
                                  (''generatedAt'', Str generatedAt),
                                  (''resultsCount'', Num (int (length results)))])])]"
proof -
  define info where
    "info = (case getField body ''projectInfo'' of Undefined \<Rightarrow> Obj [] | v \<Rightarrow> v)"
  have bad: "status (sendValidationError m) \<noteq> 200" "status (sendServerError e) \<noteq> 200" for m e
    by (simp_all add: sendValidationError_def sendServerError_def sendError_def)
  from assms bad obtain results where
    arr: "getField body ''analysisResults'' = Arr results" and ne: "length results \<noteq> 0"
    by (cases "getField body ''analysisResults''")
       (auto simp: controller_generateReport_def Let_def split: if_splits)
  obtain out w2 calls' where
    run: "aiService_generateReport reg now results info w = (out, w2, calls')"
    by (cases "aiService_generateReport reg now results info w") auto
  show ?thesis
  proof (cases out)
    case (Inl err)
    with assms arr ne run bad show ?thesis
      by (auto simp: controller_generateReport_def Let_def info_def)
  next
    case (Inr report)
    obtain generatedAt w3 where clk: "now w2 = (generatedAt, w3)" by (cases "now w2")
    from assms(1) arr ne run Inr clk have
      resp: "resp = sendSuccess
                (Obj [(''report'', resultJson report),
                      (''metadata'',
                         Obj [(''projectInfo'', info),
                              (''generatedAt'', Str generatedAt),
                              (''resultsCount'', Num (int (length results)))])])"
      and w: "w' = w3" and c: "calls = calls'"
      by (simp_all add: controller_generateReport_def Let_def info_def)
    from run Inr c have run': "aiService_generateReport reg now results info w = (Inr report, w2, calls)"
      by simp
    from aiService_generateReport_success [OF run'] obtain w0 w1 where
      md: "language (metadata report) = ''multiple''" "analysisType (metadata report) = ''report''"
      and cs: "calls \<noteq> []" "provider report = name (last calls)"
      and op: "reportOperation results info (last calls) w0 = (Inr (analysis report), w1)"
      and st: "now w1 = (timestamp (metadata report), w2)"
      by blast
    from resp md have js: "json resp =
             Obj [(''success'', Bool True),
                  (''data'',
                     Obj [(''report'',
                             Obj [(''analysis'', Str (analysis report)),
                                  (''provider'', Str (provider report)),
                                  (''metadata'',
                                     Obj [(''language'', Str ''multiple''),
                                          (''analysisType'', Str ''report''),
                                          (''timestamp'', Str (timestamp (metadata report)))])]),
                          (''metadata'',
                             Obj [(''projectInfo'', info),
                                  (''generatedAt'', Str generatedAt),
                                  (''resultsCount'', Num (int (length results)))])])]"
      by (simp add: sendSuccess_def resultJson_def)
    from arr run' cs op st clk w js info_def show ?thesis
      by blast
  qed
qed




text \<open>
  The handler for analyze, like those for explain and improve, sends the result of the
  service as the payload itself.
\<close>

lemma analyze_payload_is_envelope:
  "controller_analyzeCode registry1 stubClock analyzeBody 0 =
     (\<lparr>status = 200,
       json =
         Obj [(''success'', Bool True),
              (''data'',
                 Obj [(''analysis'', Str ''looks fine''),
                      (''provider'', Str ''Groq''),
                      (''metadata'',
                         Obj [(''language'', Str ''python''),
                              (''analysisType'', Str ''general''),
                              (''timestamp'', Str ''1970-01-01T00:00:02.000Z'')])])]\<rparr>,
      2, [registry1 ! 0, registry1 ! 1])"
proof -
  have t: "trim ''x = 1'' = ''x = 1''"
    by (simp add: trim_def isWhiteSpace_def)
  have v: "validateCode (Str ''x = 1'') = None"
    by (simp add: validateCode_def t)
  have l: "validateLanguage (Str ''python'') = ''python''"
  proof -
    have "toLowerCase ''python'' = ''python''" by code_simp
    then show ?thesis by (simp add: validateLanguage_def supportedLanguages_def)
  qed
  have run: "aiService_analyzeCode registry1 stubClock
               \<lparr>req_code = ''x = 1'', req_language = Some ''python'',
                req_analysisType = Some ''general'', req_preferredProvider = Some ''auto''\<rparr> 0 =
     (Inr \<lparr>analysis = ''looks fine'', provider = ''Groq'',
           metadata = \<lparr>language = ''python'', analysisType = ''general'',
                       timestamp = ''1970-01-01T00:00:02.000Z''\<rparr>\<rparr>,
      2, [registry1 ! 0, registry1 ! 1])"
    by (simp add: aiService_analyzeCode_def orDefault_def envelope_def executeWithFallback_def
        attemptOrder_def getAvailableProviders_def available_def
        registry1_def providers_def stubService_def stubClock_def)
  show ?thesis
    by (simp add: controller_analyzeCode_def analyzeBody_def getField_def v t l run
        validateAnalysisType_def validateProviderType_def respond_def sendSuccess_def
        resultJson_def)
qed

section \<open>Validation comes first\<close>

lemma validateCode_rejects:
  "typeof code \<noteq> ''string'' \<or> (\<exists>s. code = Str s \<and> trim s = []) \<Longrightarrow>
   validateCode code = Some ''Code is required and must be a non-empty string''"
  by (auto simp: validateCode_def)

text \<open>
  C8. When the \<open>code\<close> member of the body is missing, is not a string, or is a string
  that is empty after trimming, each of the handlers for analyze, explain and improve
  answers with status 400 and the body \<open>{success: false, error: "Validation Error",
  message: "Code is required and must be a non-empty string"}\<close>; the world is as it was
  and no provider has been called.
\<close>

theorem validation_error_before_orchestration:
  assumes "map_of body ''code'' = None
           \<or> typeof (getField body ''code'') \<noteq> ''string''
           \<or> (\<exists>s. getField body ''code'' = Str s \<and> trim s = [])"
  shows "controller_analyzeCode reg now body w =
           (\<lparr>status = 400,
             json = Obj [(''success'', Bool False), (''error'', Str ''Validation Error''),
                         (''message'', Str ''Code is required and must be a non-empty string'')]\<rparr>,
            w, [])
         \<and> controller_explainCode reg now body w =
           (\<lparr>status = 400,
             json = Obj [(''success'', Bool False), (''error'', Str ''Validation Error''),
                         (''message'', Str ''Code is required and must be a non-empty string'')]\<rparr>,
            w, [])
         \<and> controller_suggestImprovements reg now body w =
           (\<lparr>status = 400,
             json = Obj [(''success'', Bool False), (''error'', Str ''Validation Error''),
                         (''message'', Str ''Code is required and must be a non-empty string'')]\<rparr>,
            w, [])"
proof -
  from assms have "typeof (getField body ''code'') \<noteq> ''string''
           \<or> (\<exists>s. getField body ''code'' = Str s \<and> trim s = [])"
    by (auto simp: getField_def)
  then have v: "validateCode (getField body ''code'')
                  = Some ''Code is required and must be a non-empty string''"
    by (rule validateCode_rejects)
  have a: "controller_analyzeCode reg now body w =
           (\<lparr>status = 400,
             json = Obj [(''success'', Bool False), (''error'', Str ''Validation Error''),
                         (''message'', Str ''Code is required and must be a non-empty string'')]\<rparr>,
            w, [])"
    by (simp add: controller_analyzeCode_def Let_def v sendValidationError_def sendError_def)
  have b: "controller_explainCode reg now body w =
           (\<lparr>status = 400,
             json = Obj [(''success'', Bool False), (''error'', Str ''Validation Error''),
                         (''message'', Str ''Code is required and must be a non-empty string'')]\<rparr>,
            w, [])"
    by (simp add: controller_explainCode_def Let_def v sendValidationError_def sendError_def)
  have c: "controller_suggestImprovements reg now body w =
           (\<lparr>status = 400,
             json = Obj [(''success'', Bool False), (''error'', Str ''Validation Error''),
                         (''message'', Str ''Code is required and must be a non-empty string'')]\<rparr>,
            w, [])"
    by (simp add: controller_suggestImprovements_def Let_def v sendValidationError_def
        sendError_def)
  from a b c show ?thesis by blast
qed

lemma trim_blank: "trim '' '' = []"
  by (simp add: trim_def isWhiteSpace_def)

theorem validation_error_before_orchestration_witness:
  "controller_analyzeCode registry1 stubClock [(''code'', Str '' ''), (''language'', Str ''python'')] 0 =
           (\<lparr>status = 400,
             json = Obj [(''success'', Bool False), (''error'', Str ''Validation Error''),
                         (''message'', Str ''Code is required and must be a non-empty string'')]\<rparr>,
            0, [])
   \<and> controller_explainCode registry1 stubClock [(''code'', Num 7)] 0 =
           (\<lparr>status = 400,
             json = Obj [(''success'', Bool False), (''error'', Str ''Validation Error''),
                         (''message'', Str ''Code is required and must be a non-empty string'')]\<rparr>,
            0, [])
   \<and> controller_suggestImprovements registry1 stubClock [] 0 =
           (\<lparr>status = 400,
             json = Obj [(''success'', Bool False), (''error'', Str ''Validation Error''),
                         (''message'', Str ''Code is required and must be a non-empty string'')]\<rparr>,
            0, [])"
  using validation_error_before_orchestration
      [of "[(''code'', Str '' ''), (''language'', Str ''python'')]" registry1 stubClock 0]
    validation_error_before_orchestration [of "[(''code'', Num 7)]" registry1 stubClock 0]
    validation_error_before_orchestration [of "[]" registry1 stubClock 0]
  by (simp add: getField_def trim_blank)

section \<open>Retry with backoff\<close>

lemma retryFrom_done:
  "\<not> attempt \<le> maxRetries \<Longrightarrow>
   retryFrom sleep operation maxRetries baseDelay attempt w = (Inl MaxRetriesExceeded, w, 0, [])"
  by (subst retryFrom.simps) simp

lemma retryFrom_ok:
  "attempt \<le> maxRetries \<Longrightarrow> operation w = (Inr v, w') \<Longrightarrow>
   retryFrom sleep operation maxRetries baseDelay attempt w = (Inr v, w', 1, [])"
  by (subst retryFrom.simps) simp

lemma retryFrom_rethrow:
  "attempt \<le> maxRetries \<Longrightarrow> operation w = (Inl err, w') \<Longrightarrow>
   attempt = maxRetries \<or> \<not> isRateLimitError err \<Longrightarrow>
   retryFrom sleep operation maxRetries baseDelay attempt w = (Inl (Rethrown err), w', 1, [])"
  by (subst retryFrom.simps) auto

lemma retryFrom_retry:
  "attempt < maxRetries \<Longrightarrow> operation w = (Inl err, w') \<Longrightarrow> isRateLimitError err \<Longrightarrow>
   retryFrom sleep operation maxRetries baseDelay attempt w =
     (case retryFrom sleep operation maxRetries baseDelay (attempt + 1)
             (sleep (baseDelay * 2 ^ nat (attempt - 1)) w') of
        (out, w'', n, delays) \<Rightarrow>
          (out, w'', Suc n, baseDelay * 2 ^ nat (attempt - 1) # delays))"
  by (subst retryFrom.simps) simp

lemma retryFrom_origin:
  "attempt \<le> maxRetries \<Longrightarrow>
   retryFrom sleep operation maxRetries baseDelay attempt w = (res, w', n, ds) \<Longrightarrow>
   \<exists>w0 out. operation w0 = (out, w') \<and> res = map_sum Rethrown id out"
proof (induction sleep operation maxRetries baseDelay attempt w arbitrary: res w' n ds
       rule: retryFrom.induct)
  case (1 sleep operation maxRetries baseDelay attempt w)
  obtain out w1 where op: "operation w = (out, w1)" by (cases "operation w")
  show ?case
  proof (cases out)
    case (Inr v)
    with op have "operation w = (Inr v, w1)" by simp
    from retryFrom_ok [where operation = operation and w = w, OF "1.prems"(1) this] "1.prems"(2)
    have "res = map_sum Rethrown id (Inr v)" and "w' = w1" by simp_all
    with op Inr show ?thesis by blast
  next
    case (Inl err)
    with op have op': "operation w = (Inl err, w1)" by simp
    show ?thesis
    proof (cases "attempt = maxRetries \<or> \<not> isRateLimitError err")
      case True
      from retryFrom_rethrow [where operation = operation and w = w, OF "1.prems"(1) op' True] "1.prems"(2)
      have "res = map_sum Rethrown id (Inl err)" and "w' = w1" by simp_all
      with op' show ?thesis by blast
    next
      case False
      with "1.prems" have lt: "attempt < maxRetries" and rl: "isRateLimitError err" by simp_all
      let ?d = "baseDelay * 2 ^ nat (attempt - 1)"
      obtain res' w'' n' ds' where
        rest: "retryFrom sleep operation maxRetries baseDelay (attempt + 1) (sleep ?d w1)
                 = (res', w'', n', ds')"
        by (cases "retryFrom sleep operation maxRetries baseDelay (attempt + 1) (sleep ?d w1)")
      from retryFrom_retry [where operation = operation and w = w and sleep = sleep and baseDelay = baseDelay, OF lt op' rl] rest "1.prems"(2)
      have eq: "res = res'" "w' = w''" by simp_all
      from lt have next_ok: "attempt + 1 \<le> maxRetries" by simp
      from "1.IH" [OF "1.prems"(1) op [symmetric] Inl False next_ok rest] eq
      show ?thesis by simp
    qed
  qed
qed




lemma alwaysRateLimited_limited:
  "\<forall>v. \<exists>e. fst (alwaysRateLimited v) = Inl e \<and> isRateLimitError e"
  by (simp add: alwaysRateLimited_def isRateLimitError_def)







lemma retryWithBackoff_no_attempt:
  "maxRetries < 1 \<Longrightarrow>
   retryWithBackoff sleep operation maxRetries baseDelay w = (Inl MaxRetriesExceeded, w, 0, [])"
  by (simp add: retryWithBackoff_def retryFrom_done)

text \<open>
  C9. For every integer \<open>maxRetries\<close> of at least 1, \<open>retryWithBackoff\<close> does not end
  in the \<open>throw\<close> after the loop: its outcome and the world it leaves are those of one
  call of the operation, either the value that call returned or the error it threw.
\<close>

theorem max_retries_throw_unreachable:
  assumes "1 \<le> maxRetries"
  shows "fst (retryWithBackoff sleep operation maxRetries baseDelay w) \<noteq> Inl MaxRetriesExceeded
         \<and> (\<exists>w0 out. operation w0
                        = (out, fst (snd (retryWithBackoff sleep operation maxRetries baseDelay w)))
                    \<and> fst (retryWithBackoff sleep operation maxRetries baseDelay w)
                        = map_sum Rethrown id out)"
proof -
  obtain res w' n ds where
    run: "retryFrom sleep operation maxRetries baseDelay 1 w = (res, w', n, ds)"
    by (cases "retryFrom sleep operation maxRetries baseDelay 1 w")
  from retryFrom_origin [OF assms run] obtain w0 out where
    o: "operation w0 = (out, w')" and r: "res = map_sum Rethrown id out"
    by blast
  from r have "res \<noteq> Inl MaxRetriesExceeded"
    by (cases out) simp_all
  with run o r show ?thesis
    by (auto simp: retryWithBackoff_def)
qed

theorem max_retries_throw_unreachable_witness:
  "(1::int) \<le> 3
   \<and> fst (retryWithBackoff stubSleep alwaysRateLimited 3 1000 0) \<noteq> Inl MaxRetriesExceeded
   \<and> fst (retryWithBackoff stubSleep alwaysRateLimited 0 1000 0) = Inl MaxRetriesExceeded"
  using max_retries_throw_unreachable [of 3 stubSleep alwaysRateLimited 1000 0]
    retryWithBackoff_no_attempt [of 0 stubSleep alwaysRateLimited 1000 0]
  by simp

section \<open>The Gemini adapter is never unavailable\<close>

text \<open>
  C10. Every Gemini adapter that the constructor returns has a non-empty key and is
  available; with an empty key the constructor throws \<open>Gemini API key is required\<close>.
  With no (or an empty) \<open>GEMINI_API_KEY\<close> the loading of the orchestrator's module
  fails with that error; and whenever the module does load, the Gemini entry, which has
  no availability check, is among the available providers.
\<close>

theorem gemini_never_unavailable:
  "(\<forall>g. GeminiService_new config = Inr g \<longrightarrow>
          apiKey (gemini config) \<noteq> [] \<and> gemini_isAvailable config g)
   \<and> (apiKey (gemini config) = [] \<longrightarrow>
          GeminiService_new config = Inl (Error ''Gemini API key is required''))
   \<and> (env ''GEMINI_API_KEY'' = None \<or> env ''GEMINI_API_KEY'' = Some [] \<longrightarrow>
          aiService_module env geminiMethods groqService huggingFaceService
            = Inl (Error ''Gemini API key is required''))
   \<and> (\<forall>reg. aiService_module env geminiMethods groqService huggingFaceService = Inr reg \<longrightarrow>
          (\<exists>g. GeminiService_new (loadConfig env) = Inr g
               \<and> gemini_isAvailable (loadConfig env) g
               \<and> \<lparr>name = ''Gemini'', service = geminiMethods g, priority = 1,
                   checkAvailable = None\<rparr> \<in> set (getAvailableProviders reg)))"
proof (intro conjI allI impI)
  fix g
  assume "GeminiService_new config = Inr g"
  then show "apiKey (gemini config) \<noteq> []"
    by (auto simp: GeminiService_new_def split: if_splits)
  then show "gemini_isAvailable config g"
    by (simp add: gemini_isAvailable_def)
next
  assume "apiKey (gemini config) = []"
  then show "GeminiService_new config = Inl (Error ''Gemini API key is required'')"
    by (simp add: GeminiService_new_def)
next
  assume "env ''GEMINI_API_KEY'' = None \<or> env ''GEMINI_API_KEY'' = Some []"
  then show "aiService_module env geminiMethods groqService huggingFaceService
            = Inl (Error ''Gemini API key is required'')"
    by (auto simp: aiService_module_def GeminiService_new_def loadConfig_def)
next
  fix reg
  assume a: "aiService_module env geminiMethods groqService huggingFaceService = Inr reg"
  then obtain g where g: "GeminiService_new (loadConfig env) = Inr g"
    and reg: "reg = providers (geminiMethods g) groqService huggingFaceService"
    by (auto simp: aiService_module_def split: sum.splits)
  from g have "gemini_isAvailable (loadConfig env) g"
    by (auto simp: GeminiService_new_def gemini_isAvailable_def split: if_splits)
  moreover have "\<lparr>name = ''Gemini'', service = geminiMethods g, priority = 1,
                   checkAvailable = None\<rparr> \<in> set (getAvailableProviders reg)"
    by (simp add: reg providers_def getAvailableProviders_def available_def)
  ultimately show "\<exists>g. GeminiService_new (loadConfig env) = Inr g
               \<and> gemini_isAvailable (loadConfig env) g
               \<and> \<lparr>name = ''Gemini'', service = geminiMethods g, priority = 1,
                   checkAvailable = None\<rparr> \<in> set (getAvailableProviders reg)"
    using g by blast
qed

theorem gemini_never_unavailable_witness:
  "GeminiService_new (loadConfig [''GEMINI_API_KEY'' \<mapsto> ''k-123'']) = Inr \<lparr>genAI = ''k-123''\<rparr>
   \<and> gemini_isAvailable (loadConfig [''GEMINI_API_KEY'' \<mapsto> ''k-123'']) \<lparr>genAI = ''k-123''\<rparr>
   \<and> GeminiService_new (loadConfig Map.empty) = Inl (Error ''Gemini API key is required'')
   \<and> aiService_module Map.empty (\<lambda>g. stubService True (Inr ''ok'') None)
        (stubService False (Inr ''ok'') None) (stubService True (Inr ''ok'') None)
        = Inl (Error ''Gemini API key is required'')"
proof -
  have a: "GeminiService_new (loadConfig [''GEMINI_API_KEY'' \<mapsto> ''k-123'']) = Inr \<lparr>genAI = ''k-123''\<rparr>"
    by (simp add: GeminiService_new_def loadConfig_def)
  have b: "apiKey (gemini (loadConfig Map.empty)) = []"
    by (simp add: loadConfig_def)
  from gemini_never_unavailable [of "loadConfig [''GEMINI_API_KEY'' \<mapsto> ''k-123'']"] a
  have c: "gemini_isAvailable (loadConfig [''GEMINI_API_KEY'' \<mapsto> ''k-123'']) \<lparr>genAI = ''k-123''\<rparr>"
    by blast
  from gemini_never_unavailable [of "loadConfig Map.empty"] b
  have d: "GeminiService_new (loadConfig Map.empty) = Inl (Error ''Gemini API key is required'')"
    by blast
  from gemini_never_unavailable [of _ Map.empty "\<lambda>g. stubService True (Inr ''ok'') None"
        "stubService False (Inr ''ok'') None" "stubService True (Inr ''ok'') None"]
  have e: "aiService_module Map.empty (\<lambda>g. stubService True (Inr ''ok'') None)
        (stubService False (Inr ''ok'') None) (stubService True (Inr ''ok'') None)
        = Inl (Error ''Gemini API key is required'')"
    by simp
  from a c d e show ?thesis by blast
qed

end
